theory Spec2Isabelle
  imports Main
begin

section \<open>JavaScript values\<close>

text \<open>
  Numbers that the program only adds and counts (prices, quantities) are integers.
  Reading a property that an object does not carry gives \<open>undefined\<close>, which is
  \<open>None\<close> here. An exception is a value of \<open>js_error\<close> on the left of a sum.
\<close>

datatype js_error = TypeError | Error string | SyntaxError

section \<open>The cart slice (store/cart-slice.js)\<close>

text \<open>
  The two case reducers are modelled as functions from the state and the payload to the
  new state, or to the exception they throw.

  The payload of \<open>addItemToCart\<close>: the product a shop entry dispatches,
  \<open>{id, title, price}\<close> (the entries of \<open>DUMMY_PROUCTS\<close> in Products.js).
\<close>

record product =
  id_p :: string
  price_p :: int
  title_p :: string

text \<open>
  A line item of the cart. \<open>addItemToCart\<close> writes the five properties \<open>itemId\<close>,
  \<open>price\<close>, \<open>quantity\<close>, \<open>totalPrice\<close> and \<open>name\<close>. Both reducers search the
  array on the property \<open>id\<close>, which is therefore part of the model: \<open>id_i\<close> is
  \<open>None\<close> for an object without that property.
\<close>

record line_item =
  id_i :: "string option"
  itemId :: string
  price :: int
  quantity :: int
  totalPrice :: int
  name :: string

record cart_state =
  items :: "line_item list"
  totalQuantity :: int
  totalAmount :: int

definition initialCartState :: cart_state where
  "initialCartState = \<lparr>items = [], totalQuantity = 0, totalAmount = 0\<rparr>"

text \<open>
  \<open>existingItem\<close> is a reference into the array: an assignment to one of its
  properties changes the first element that \<open>find\<close> selects. \<open>mutate_first P f xs\<close>
  applies \<open>f\<close> to that element.
\<close>

fun mutate_first :: "('a \<Rightarrow> bool) \<Rightarrow> ('a \<Rightarrow> 'a) \<Rightarrow> 'a list \<Rightarrow> 'a list" where
  "mutate_first P f [] = []"
| "mutate_first P f (x # xs) = (if P x then f x # xs else x # mutate_first P f xs)"

text \<open>The test of both \<open>find\<close> calls: \<open>item.id === id\<close>.\<close>

definition same_id :: "string \<Rightarrow> line_item \<Rightarrow> bool" where
  "same_id i item = (id_i item = Some i)"

definition addItemToCart :: "cart_state \<Rightarrow> product \<Rightarrow> cart_state" where
  "addItemToCart state newItem =
     (case List.find (same_id (id_p newItem)) (items state) of
        None \<Rightarrow>
          state\<lparr>items := items state @
            [\<lparr>id_i = None, itemId = id_p newItem, price = price_p newItem, quantity = 1,
              totalPrice = price_p newItem, name = title_p newItem\<rparr>]\<rparr>
      | Some existingItem \<Rightarrow>
          state\<lparr>items := mutate_first (same_id (id_p newItem))
            (\<lambda>e. e\<lparr>quantity := quantity e + 1, totalPrice := totalPrice e + price_p newItem\<rparr>)
            (items state)\<rparr>)"

text \<open>
  \<open>removeItemFromCart\<close> reads \<open>state.item\<close>. The state object has the properties
  \<open>items\<close>, \<open>totalQuantity\<close> and \<open>totalAmount\<close> and no property \<open>item\<close>, so the read
  gives \<open>undefined\<close>, and \<open>undefined.find\<close> throws a TypeError. The statements after
  the read are kept as the source has them: \<open>existingItem.quantity\<close> is read with no
  test that \<open>existingItem\<close> is defined (a TypeError again when it is not), the
  quantity-1 branch filters \<open>state.items\<close>, and the other branch decrements the quantity
  and leaves \<open>totalPrice\<close> alone.
\<close>

definition item :: "cart_state \<Rightarrow> line_item list option" where
  "item state = None"

definition removeItemFromCart :: "cart_state \<Rightarrow> string \<Rightarrow> js_error + cart_state" where
  "removeItemFromCart state i =
     (case item state of
        None \<Rightarrow> Inl TypeError
      | Some arr \<Rightarrow>
          (case List.find (same_id i) arr of
             None \<Rightarrow> Inl TypeError
           | Some existingItem \<Rightarrow>
               if quantity existingItem = 1
               then Inr (state\<lparr>items := filter (\<lambda>it. id_i it \<noteq> Some i) (items state)\<rparr>)
               else Inr (state\<lparr>items := mutate_first (same_id i)
                           (\<lambda>e. e\<lparr>quantity := quantity e - 1\<rparr>) (items state)\<rparr>)))"

section \<open>The UI slice (store/ui-slice.js)\<close>

text \<open>
  A notification is the object that the thunks pass to \<open>showNotification\<close>; the error
  notification of \<open>sendCartData\<close> has no \<open>message\<close>.
\<close>

record notification =
  status :: string
  title :: string
  message :: "string option"

text \<open>
  The UI state is a JavaScript object. Which properties it carries is part of what is
  verified, so it is a map from property names to values. The values that occur are
  booleans and notification objects.
\<close>

datatype js_value = JBool bool | JNotification notification

type_synonym ui_state = "string \<rightharpoonup> js_value"

definition initialUIstate :: ui_state where
  "initialUIstate = [''cartIsVisible'' \<mapsto> JBool False]"

text \<open>
  The operator \<open>!\<close>: \<open>undefined\<close> and \<open>false\<close> are falsy, \<open>true\<close> and every object
  are truthy.
\<close>

fun not_js :: "js_value option \<Rightarrow> bool" where
  "not_js None = True"
| "not_js (Some (JBool b)) = (\<not> b)"
| "not_js (Some (JNotification n)) = False"

definition toggle :: "ui_state \<Rightarrow> ui_state" where
  "toggle state = state(''cartIsVisible'' \<mapsto> JBool (not_js (state ''cartIsVisible'')))"

section \<open>Actions and the store\<close>

text \<open>
  An action is an object with a type and a payload. The slice's reducer runs the case
  reducer named by the type and returns the state unchanged for an action of any other
  type. The cart slice has the case reducers \<open>addItemToCart\<close> and
  \<open>removeItemFromCart\<close>, the UI slice has \<open>toggle\<close>. \<open>ReplaceCart\<close> and
  \<open>ShowNotification\<close> are the actions of the types \<open>cart/replaceCart\<close> and
  \<open>ui/showNotification\<close>, for which no slice has a case reducer.
\<close>

datatype action =
    AddItemToCart product
  | RemoveItemFromCart string
  | Toggle
  | ReplaceCart cart_state
  | ShowNotification notification

fun cartReducer :: "cart_state \<Rightarrow> action \<Rightarrow> js_error + cart_state" where
  "cartReducer state (AddItemToCart newItem) = Inr (addItemToCart state newItem)"
| "cartReducer state (RemoveItemFromCart i) = removeItemFromCart state i"
| "cartReducer state _ = Inr state"

fun uiReducer :: "ui_state \<Rightarrow> action \<Rightarrow> ui_state" where
  "uiReducer state Toggle = toggle state"
| "uiReducer state _ = state"

text \<open>
  \<open>createSlice\<close> makes one action creator for each case reducer, so
  \<open>uiSlice.actions\<close>, exported as \<open>uiActions\<close>, holds \<open>toggle\<close> alone. The thunks of
  the notes call \<open>uiActions.showNotification({...})\<close>: the property read gives
  \<open>undefined\<close>, and the call of \<open>undefined\<close> throws a TypeError. They also call
  \<open>cartActions.replaceCart(cartData)\<close>; the cart slice has no case reducer
  \<open>replaceCart\<close> (and the source binds its actions to no name), so that call throws
  as well.
\<close>

definition showNotification :: "notification \<Rightarrow> js_error + action" where
  "showNotification n = Inl TypeError"

definition replaceCart :: "cart_state \<Rightarrow> js_error + action" where
  "replaceCart c = Inl TypeError"

text \<open>
  The running application: the store with the states of the two slices
  (\<open>state.cart\<close>, \<open>state.ui\<close>), the module variable \<open>isInitial\<close> that the effect of
  App reads, and two traces kept for the verification: the actions dispatched so far and
  the bodies of the PUT requests issued so far.
\<close>

record world =
  cart :: cart_state
  ui :: ui_state
  isInitial :: bool
  dispatched :: "action list"
  requests :: "cart_state list"

text \<open>
  Modelled from the spec: the declaration of \<open>isInitial\<close> is not in the source, which
  shows the effect only. The specification's Sync Marker is set true at startup, and the
  note beside the effect says that the flag skips the initial render.
\<close>

definition startup :: world where
  "startup = \<lparr>cart = initialCartState, ui = initialUIstate, isInitial = True,
              dispatched = [], requests = []\<rparr>"

text \<open>
  \<open>dispatch\<close> runs the reducers. When a reducer throws, the exception reaches the
  caller and the store keeps its state.
\<close>

definition dispatch :: "action \<Rightarrow> world \<Rightarrow> js_error + world" where
  "dispatch a w =
     (case cartReducer (cart w) a of
        Inl e \<Rightarrow> Inl e
      | Inr c \<Rightarrow> Inr (w\<lparr>cart := c, ui := uiReducer (ui w) a, dispatched := dispatched w @ [a]\<rparr>))"

text \<open>
  The statement \<open>dispatch(uiActions.showNotification(n))\<close>: the argument is evaluated
  first, and an exception there means that nothing is dispatched. In \<open>emit_last\<close> the
  statement is the last one of a thunk: the thunk returns the world it leaves and the
  exception it was rejected with, if any.
\<close>

definition emit :: "notification \<Rightarrow> world \<Rightarrow> js_error + world" where
  "emit n w = (case showNotification n of Inl e \<Rightarrow> Inl e | Inr a \<Rightarrow> dispatch a w)"

definition emit_last :: "notification \<Rightarrow> world \<Rightarrow> js_error option \<times> world" where
  "emit_last n w = (case emit n w of Inl e \<Rightarrow> (Some e, w) | Inr w' \<Rightarrow> (None, w'))"

section \<open>The thunks (notes in store/cart-slice.js and notes/02_thunk_example2.md)\<close>

text \<open>
  The answer of the network to a \<open>fetch\<close>: the promise is rejected (no response, a
  TypeError), or it resolves with a response, which has a status (\<open>ok\<close>) and a body;
  \<open>json\<close> is the parsed body, \<open>None\<close> when \<open>response.json()\<close> throws.
\<close>

record response =
  ok :: bool
  json :: "cart_state option"

datatype fetch_result = Rejected | Resolved response

text \<open>\<open>sendRequest\<close> tests \<open>!response\<close>. A response is an object, and objects are truthy.\<close>

definition truthy :: "response \<Rightarrow> bool" where
  "truthy r = True"

definition sendRequest :: "fetch_result \<Rightarrow> js_error + unit" where
  "sendRequest r =
     (case r of
        Rejected \<Rightarrow> Inl TypeError
      | Resolved response \<Rightarrow>
          if \<not> truthy response then Inl (Error ''Sending cart data failed'') else Inr ())"

text \<open>
  \<open>sendCartData(cart)\<close>. The pending notification is the first statement; the call of
  \<open>sendRequest\<close>, which issues the PUT request, comes after it.
\<close>

definition sendCartData :: "cart_state \<Rightarrow> fetch_result \<Rightarrow> world \<Rightarrow> js_error option \<times> world" where
  "sendCartData cartv r w =
     (case emit \<lparr>status = ''pending'', title = ''Sending...'',
                 message = Some ''Sending cart data...''\<rparr> w of
        Inl e \<Rightarrow> (Some e, w)
      | Inr w1 \<Rightarrow>
          (let w2 = w1\<lparr>requests := requests w1 @ [cartv]\<rparr> in
           case sendRequest r of
             Inr u \<Rightarrow>
               (case emit \<lparr>status = ''success!'', title = ''success'',
                           message = Some ''Sent Cart Data Successfully''\<rparr> w2 of
                  Inr w3 \<Rightarrow> (None, w3)
                | Inl error \<Rightarrow>
                    emit_last \<lparr>status = ''error'', title = ''Error!'', message = None\<rparr> w2)
           | Inl error \<Rightarrow>
               emit_last \<lparr>status = ''error'', title = ''Error!'', message = None\<rparr> w2))"

definition fetchData :: "fetch_result \<Rightarrow> js_error + cart_state" where
  "fetchData r =
     (case r of
        Rejected \<Rightarrow> Inl TypeError
      | Resolved response \<Rightarrow>
          if \<not> ok response then Inl (Error ''Could not fetch cart data'')
          else (case json response of None \<Rightarrow> Inl SyntaxError | Some data \<Rightarrow> Inr data))"

text \<open>
  \<open>fetchCartData()\<close>. An exception of the \<open>try\<close> block, from \<open>fetchData\<close> or from the
  statement \<open>dispatch(cartActions.replaceCart(cartData))\<close>, is caught, and the \<open>catch\<close>
  block emits the error notification.
\<close>

definition fetchCartData :: "fetch_result \<Rightarrow> world \<Rightarrow> js_error option \<times> world" where
  "fetchCartData r w =
     (case fetchData r of
        Inr cartData \<Rightarrow>
          (case (case replaceCart cartData of Inl e \<Rightarrow> Inl e | Inr a \<Rightarrow> dispatch a w) of
             Inr w' \<Rightarrow> (None, w')
           | Inl error \<Rightarrow>
               emit_last \<lparr>status = ''error'', title = ''Error!'',
                          message = Some ''Fetching cart data failed!''\<rparr> w)
      | Inl error \<Rightarrow>
          emit_last \<lparr>status = ''error'', title = ''Error!'',
                     message = Some ''Fetching cart data failed!''\<rparr> w)"

section \<open>The effect of App\<close>

text \<open>
  The body of the \<open>useEffect\<close> callback that the notes in store/cart-slice.js give for
  App (App.js as it stands only selects \<open>cartIsVisible\<close> and renders). Its parameter is
  the answer of the network to the request that a push issues.
\<close>

definition effect :: "fetch_result \<Rightarrow> world \<Rightarrow> world" where
  "effect r w =
     (if isInitial w then w\<lparr>isInitial := False\<rparr>
      else snd (sendCartData (cart w) r w))"

text \<open>
  The dependencies of the effect are \<open>[cart, dispatch]\<close>: after the first render the
  effect runs, and after a later render it runs when \<open>cart\<close> is not the value of the
  render before.
\<close>

definition rerender :: "cart_state \<Rightarrow> fetch_result \<Rightarrow> world \<Rightarrow> world" where
  "rerender prev r w = (if cart w \<noteq> prev then effect r w else w)"

text \<open>
  What happens after the first render: a handler dispatches an action (an exception in
  the handler leaves the store as it was), or the pull that App starts completes.
\<close>

datatype event =
    UserDispatch action fetch_result
  | Pull fetch_result fetch_result

fun step :: "world \<Rightarrow> event \<Rightarrow> world" where
  "step w (UserDispatch a r) =
     (case dispatch a w of Inl e \<Rightarrow> w | Inr w' \<Rightarrow> rerender (cart w) r w')"
| "step w (Pull g r) = rerender (cart w) r (snd (fetchCartData g w))"

definition session :: "fetch_result \<Rightarrow> event list \<Rightarrow> world" where
  "session r0 evs = foldl step (effect r0 startup) evs"

section \<open>Facts about the array operations\<close>

lemma find_absent: "(\<And>x. x \<in> set xs \<Longrightarrow> \<not> P x) \<Longrightarrow> List.find P xs = None"
  by (simp add: find_None_iff)

lemma sum_mutate_first:
  assumes "\<And>x. g (f x) = g x + d"
  shows "List.find P xs = Some e \<Longrightarrow>
           sum_list (map g (mutate_first P f xs)) = sum_list (map g xs) + (d::int)"
  using assms by (induction xs) (auto split: if_splits)

section \<open>Adding an item\<close>

text \<open>
  C1, as the code has it. When no line item of the cart shares the candidate's id,
  \<open>addItemToCart\<close> appends one new line item and changes no other element; the new
  line item has the candidate's id as \<open>itemId\<close>, its title as \<open>name\<close>, its price as
  \<open>price\<close> and as \<open>totalPrice\<close>, and quantity 1. Under every addition
  \<open>totalQuantity\<close> and \<open>totalAmount\<close> keep their values.
\<close>

theorem addItemToCart_effect:
  "((\<forall>it \<in> set (items s). itemId it \<noteq> id_p p \<and> id_i it \<noteq> Some (id_p p)) \<longrightarrow>
      (\<exists>new. addItemToCart s p = s\<lparr>items := items s @ [new]\<rparr>
         \<and> itemId new = id_p p \<and> name new = title_p p \<and> price new = price_p p
         \<and> quantity new = 1 \<and> totalPrice new = price_p p))
   \<and> totalQuantity (addItemToCart s p) = totalQuantity s
   \<and> totalAmount (addItemToCart s p) = totalAmount s"
proof (intro conjI impI)
  assume "\<forall>it \<in> set (items s). itemId it \<noteq> id_p p \<and> id_i it \<noteq> Some (id_p p)"
  then have "List.find (same_id (id_p p)) (items s) = None"
    by (intro find_absent) (simp add: same_id_def)
  then have "addItemToCart s p = s\<lparr>items := items s @
        [\<lparr>id_i = None, itemId = id_p p, price = price_p p, quantity = 1,
          totalPrice = price_p p, name = title_p p\<rparr>]\<rparr>"
    by (simp add: addItemToCart_def)
  then show "\<exists>new. addItemToCart s p = s\<lparr>items := items s @ [new]\<rparr>
         \<and> itemId new = id_p p \<and> name new = title_p p \<and> price new = price_p p
         \<and> quantity new = 1 \<and> totalPrice new = price_p p"
    by (intro exI [of _ "\<lparr>id_i = None, itemId = id_p p, price = price_p p, quantity = 1,
          totalPrice = price_p p, name = title_p p\<rparr>"]) simp
next
  show "totalQuantity (addItemToCart s p) = totalQuantity s"
    by (simp add: addItemToCart_def split: option.split)
next
  show "totalAmount (addItemToCart s p) = totalAmount s"
    by (simp add: addItemToCart_def split: option.split)
qed

text \<open>
  The theorem at the empty cart, and at the cart that one addition of "p2" builds: the
  product "p1" is appended as a line item of quantity 1 and totalPrice 6, and the totals
  are what they were.
\<close>

theorem addItemToCart_effect_witness:
  "(\<exists>new. addItemToCart initialCartState
              \<lparr>id_p = ''p1'', price_p = 6, title_p = ''buggati''\<rparr>
            = initialCartState\<lparr>items := [new]\<rparr>
         \<and> itemId new = ''p1'' \<and> name new = ''buggati'' \<and> price new = 6
         \<and> quantity new = 1 \<and> totalPrice new = 6)
   \<and> (\<exists>new. addItemToCart
              (addItemToCart initialCartState
                 \<lparr>id_p = ''p2'', price_p = 60, title_p = ''ferrari''\<rparr>)
              \<lparr>id_p = ''p1'', price_p = 6, title_p = ''buggati''\<rparr>
            = initialCartState\<lparr>items :=
                [\<lparr>id_i = None, itemId = ''p2'', price = 60, quantity = 1, totalPrice = 60,
                   name = ''ferrari''\<rparr>, new]\<rparr>
         \<and> itemId new = ''p1'' \<and> name new = ''buggati'' \<and> price new = 6
         \<and> quantity new = 1 \<and> totalPrice new = 6)
   \<and> totalQuantity (addItemToCart initialCartState
         \<lparr>id_p = ''p1'', price_p = 6, title_p = ''buggati''\<rparr>) = 0
   \<and> totalAmount (addItemToCart initialCartState
         \<lparr>id_p = ''p1'', price_p = 6, title_p = ''buggati''\<rparr>) = 0"
proof -
  have i0: "items initialCartState = []"
    and t0: "totalQuantity initialCartState = 0" "totalAmount initialCartState = 0"
    by (simp_all add: initialCartState_def)
  have s2: "addItemToCart initialCartState
              \<lparr>id_p = ''p2'', price_p = 60, title_p = ''ferrari''\<rparr>
          = initialCartState\<lparr>items :=
              [\<lparr>id_i = None, itemId = ''p2'', price = 60, quantity = 1, totalPrice = 60,
                 name = ''ferrari''\<rparr>]\<rparr>"
    by (simp add: addItemToCart_def initialCartState_def)
  have h1: "\<forall>it \<in> set (items initialCartState).
              itemId it \<noteq> id_p \<lparr>id_p = ''p1'', price_p = 6, title_p = ''buggati''\<rparr>
              \<and> id_i it \<noteq> Some (id_p \<lparr>id_p = ''p1'', price_p = 6, title_p = ''buggati''\<rparr>)"
    by (simp add: i0)
  have h2: "\<forall>it \<in> set (items (initialCartState\<lparr>items :=
              [\<lparr>id_i = None, itemId = ''p2'', price = 60, quantity = 1, totalPrice = 60,
                 name = ''ferrari''\<rparr>]\<rparr>)).
              itemId it \<noteq> id_p \<lparr>id_p = ''p1'', price_p = 6, title_p = ''buggati''\<rparr>
              \<and> id_i it \<noteq> Some (id_p \<lparr>id_p = ''p1'', price_p = 6, title_p = ''buggati''\<rparr>)"
    by simp
  have a: "\<exists>new. addItemToCart initialCartState
              \<lparr>id_p = ''p1'', price_p = 6, title_p = ''buggati''\<rparr>
            = initialCartState\<lparr>items := [new]\<rparr>
         \<and> itemId new = ''p1'' \<and> name new = ''buggati'' \<and> price new = 6
         \<and> quantity new = 1 \<and> totalPrice new = 6"
    using addItemToCart_effect
        [of initialCartState "\<lparr>id_p = ''p1'', price_p = 6, title_p = ''buggati''\<rparr>",
         THEN conjunct1, THEN mp, OF h1]
    by (simp add: i0)
  have b: "\<exists>new. addItemToCart
              (addItemToCart initialCartState
                 \<lparr>id_p = ''p2'', price_p = 60, title_p = ''ferrari''\<rparr>)
              \<lparr>id_p = ''p1'', price_p = 6, title_p = ''buggati''\<rparr>
            = initialCartState\<lparr>items :=
                [\<lparr>id_i = None, itemId = ''p2'', price = 60, quantity = 1, totalPrice = 60,
                   name = ''ferrari''\<rparr>, new]\<rparr>
         \<and> itemId new = ''p1'' \<and> name new = ''buggati'' \<and> price new = 6
         \<and> quantity new = 1 \<and> totalPrice new = 6"
    unfolding s2
    using addItemToCart_effect
        [of "initialCartState\<lparr>items :=
              [\<lparr>id_i = None, itemId = ''p2'', price = 60, quantity = 1, totalPrice = 60,
                 name = ''ferrari''\<rparr>]\<rparr>"
            "\<lparr>id_p = ''p1'', price_p = 6, title_p = ''buggati''\<rparr>",
         THEN conjunct1, THEN mp, OF h2]
    by simp
  have c: "totalQuantity (addItemToCart initialCartState
         \<lparr>id_p = ''p1'', price_p = 6, title_p = ''buggati''\<rparr>) = 0"
    using addItemToCart_effect
        [of initialCartState "\<lparr>id_p = ''p1'', price_p = 6, title_p = ''buggati''\<rparr>",
         THEN conjunct2, THEN conjunct1]
    by (simp only: t0)
  have d: "totalAmount (addItemToCart initialCartState
         \<lparr>id_p = ''p1'', price_p = 6, title_p = ''buggati''\<rparr>) = 0"
    using addItemToCart_effect
        [of initialCartState "\<lparr>id_p = ''p1'', price_p = 6, title_p = ''buggati''\<rparr>",
         THEN conjunct2, THEN conjunct2]
    by (simp only: t0)
  show ?thesis
    by (intro conjI) (rule a, rule b, rule c, rule d)
qed

text \<open>
  C1, as the specification states it, fails on the scenario it names: after "p1" is
  added twice to the empty cart the totals are not \<open>{totalQuantity: 2, totalAmount: 12}\<close>.
  No reducer writes them, and they are what they were in the empty cart.
\<close>

theorem addItemToCart_twice_counterexample:
  "\<not> (totalQuantity (addItemToCart (addItemToCart initialCartState
          \<lparr>id_p = ''p1'', price_p = 6, title_p = ''buggati''\<rparr>)
          \<lparr>id_p = ''p1'', price_p = 6, title_p = ''buggati''\<rparr>) = 2
      \<and> totalAmount (addItemToCart (addItemToCart initialCartState
          \<lparr>id_p = ''p1'', price_p = 6, title_p = ''buggati''\<rparr>)
          \<lparr>id_p = ''p1'', price_p = 6, title_p = ''buggati''\<rparr>) = 12)"
  by (simp add: addItemToCart_def initialCartState_def same_id_def)

section \<open>The totals\<close>

lemma addItemToCart_quantity_sum:
  "sum_list (map quantity (items (addItemToCart s p))) = sum_list (map quantity (items s)) + 1"
  by (simp add: addItemToCart_def sum_mutate_first split: option.split)

lemma addItemToCart_totalPrice_sum:
  "sum_list (map totalPrice (items (addItemToCart s p)))
     = sum_list (map totalPrice (items s)) + price_p p"
  by (simp add: addItemToCart_def sum_mutate_first split: option.split)

lemma addItemToCart_totals:
  "totalQuantity (addItemToCart s p) = totalQuantity s"
  "totalAmount (addItemToCart s p) = totalAmount s"
  by (simp_all add: addItemToCart_def split: option.split)

lemma foldl_addItemToCart_sums:
  "sum_list (map quantity (items (foldl addItemToCart s ps)))
     = sum_list (map quantity (items s)) + int (length ps)
   \<and> sum_list (map totalPrice (items (foldl addItemToCart s ps)))
     = sum_list (map totalPrice (items s)) + sum_list (map price_p ps)
   \<and> totalQuantity (foldl addItemToCart s ps) = totalQuantity s
   \<and> totalAmount (foldl addItemToCart s ps) = totalAmount s"
  by (induction ps arbitrary: s)
     (simp_all add: addItemToCart_quantity_sum addItemToCart_totalPrice_sum addItemToCart_totals)

text \<open>
  C2, as the code has it. After any sequence of \<open>addItemToCart\<close> calls on the empty
  cart, the sum of the line items' quantities is the number of additions and the sum of
  their totalPrices is the sum of the unit prices added. The fields \<open>totalQuantity\<close>
  and \<open>totalAmount\<close> are written by no reducer and are still 0.
\<close>

theorem addItemToCart_sequence_sums:
  "sum_list (map quantity (items (foldl addItemToCart initialCartState ps))) = int (length ps)
   \<and> sum_list (map totalPrice (items (foldl addItemToCart initialCartState ps)))
       = sum_list (map price_p ps)
   \<and> totalQuantity (foldl addItemToCart initialCartState ps) = 0
   \<and> totalAmount (foldl addItemToCart initialCartState ps) = 0"
  using foldl_addItemToCart_sums [of initialCartState ps] by (simp add: initialCartState_def)

text \<open>
  C2, as the specification states it, fails after one addition to the empty cart:
  the line items hold quantity 1 and totalPrice 6 while both totals are 0.
\<close>

theorem totals_invariant_counterexample:
  "\<not> (totalQuantity (addItemToCart initialCartState
           \<lparr>id_p = ''p1'', price_p = 6, title_p = ''buggati''\<rparr>)
        = sum_list (map quantity (items (addItemToCart initialCartState
           \<lparr>id_p = ''p1'', price_p = 6, title_p = ''buggati''\<rparr>)))
      \<and> totalAmount (addItemToCart initialCartState
           \<lparr>id_p = ''p1'', price_p = 6, title_p = ''buggati''\<rparr>)
        = sum_list (map totalPrice (items (addItemToCart initialCartState
           \<lparr>id_p = ''p1'', price_p = 6, title_p = ''buggati''\<rparr>))))"
  by (simp add: addItemToCart_def initialCartState_def same_id_def)

section \<open>Removing an item\<close>

text \<open>
  C3 on the code. Removing "p1" throws a TypeError, both from the cart that one addition
  of "p1" builds (quantity 1) and from a cart that holds "p1" with quantity 2 and
  totalPrice 12: the read of \<open>state.item\<close> fails before any line item is looked at, and
  the cart keeps the item as it was.
\<close>

theorem removeItemFromCart_present_throws:
  "removeItemFromCart (addItemToCart initialCartState
       \<lparr>id_p = ''p1'', price_p = 6, title_p = ''buggati''\<rparr>) ''p1'' = Inl TypeError
   \<and> removeItemFromCart
       \<lparr>items = [\<lparr>id_i = Some ''p1'', itemId = ''p1'', price = 6, quantity = 2, totalPrice = 12,
                  name = ''buggati''\<rparr>], totalQuantity = 2, totalAmount = 12\<rparr> ''p1''
     = Inl TypeError"
  by (simp add: removeItemFromCart_def item_def)

text \<open>
  C4 on the code. \<open>removeItemFromCart\<close> has no branch for an absent item: it throws a
  TypeError on every cart and every id, the empty cart and an absent id included.
\<close>

theorem removeItemFromCart_always_throws:
  "removeItemFromCart state i = Inl TypeError"
  by (simp add: removeItemFromCart_def item_def)

section \<open>The thunks on the action creators of the source\<close>

lemma emit_throws: "emit n w = Inl TypeError"
  by (simp add: emit_def showNotification_def)

lemma emit_last_throws: "emit_last n w = (Some TypeError, w)"
  by (simp add: emit_last_def emit_throws)

lemma sendCartData_rejected: "sendCartData cartv r w = (Some TypeError, w)"
  by (simp add: sendCartData_def emit_throws)

lemma fetchCartData_rejected: "fetchCartData r w = (Some TypeError, w)"
  by (simp add: fetchCartData_def replaceCart_def emit_last_throws split: sum.split)

text \<open>
  C5 on the code. A push from the startup state, whatever the network would answer
  (success, an error status, no response), is rejected with a TypeError by its first
  statement, the call of \<open>uiActions.showNotification\<close>: no notification is dispatched
  and no request is issued.
\<close>

theorem sendCartData_throws:
  "sendCartData initialCartState (Resolved \<lparr>ok = True, json = None\<rparr>) startup
     = (Some TypeError, startup)
   \<and> sendCartData initialCartState (Resolved \<lparr>ok = False, json = None\<rparr>) startup
     = (Some TypeError, startup)
   \<and> sendCartData initialCartState Rejected startup = (Some TypeError, startup)
   \<and> dispatched startup = [] \<and> requests startup = []"
  by (simp add: sendCartData_rejected startup_def)

text \<open>
  C6 on the code. A pull that fails, by a rejected request or by an error status, is
  rejected with a TypeError by the call of \<open>uiActions.showNotification\<close> in its
  \<open>catch\<close> block: no notification is dispatched, and the UI state is the initial one.
  The cart state is what it was before the pull.
\<close>

theorem fetchCartData_throws:
  "fetchCartData Rejected startup = (Some TypeError, startup)
   \<and> fetchCartData (Resolved \<lparr>ok = False, json = None\<rparr>) startup = (Some TypeError, startup)
   \<and> dispatched (snd (fetchCartData Rejected startup)) = []
   \<and> ui (snd (fetchCartData Rejected startup)) = initialUIstate
   \<and> cart (snd (fetchCartData Rejected startup)) = initialCartState"
  by (simp add: fetchCartData_rejected startup_def)

section \<open>The effect and the sessions\<close>

lemma requests_effect: "requests (effect r w) = requests w"
  by (simp add: effect_def sendCartData_rejected)

lemma requests_dispatch: "dispatch a w = Inr w' \<Longrightarrow> requests w' = requests w"
  by (auto simp: dispatch_def split: sum.splits)

lemma requests_step: "requests (step w e) = requests w"
proof (cases e)
  case (UserDispatch a r)
  then show ?thesis
    by (auto simp: rerender_def requests_effect requests_dispatch split: sum.splits)
next
  case (Pull g r)
  then show ?thesis
    by (simp add: rerender_def requests_effect fetchCartData_rejected)
qed

lemma requests_foldl_step: "requests (foldl step w evs) = requests w"
  by (induction evs arbitrary: w) (simp_all add: requests_step)

text \<open>
  C7 on the code. In the session that has been rendered once, the dispatch of
  \<open>addItemToCart\<close> for "p1" changes the cart, and the effect runs with the marker
  false, but the push it starts is rejected before its request: no PUT request is
  issued, and nothing but the \<open>addItemToCart\<close> action is dispatched. The same holds
  of every session: none issues a request.
\<close>

theorem no_request_after_mutation:
  "cart (step (session Rejected [])
       (UserDispatch (AddItemToCart \<lparr>id_p = ''p1'', price_p = 6, title_p = ''buggati''\<rparr>)
          (Resolved \<lparr>ok = True, json = None\<rparr>)))
     = \<lparr>items = [\<lparr>id_i = None, itemId = ''p1'', price = 6, quantity = 1, totalPrice = 6,
                  name = ''buggati''\<rparr>], totalQuantity = 0, totalAmount = 0\<rparr>
   \<and> cart (session Rejected []) = initialCartState
   \<and> \<not> isInitial (session Rejected [])
   \<and> requests (step (session Rejected [])
       (UserDispatch (AddItemToCart \<lparr>id_p = ''p1'', price_p = 6, title_p = ''buggati''\<rparr>)
          (Resolved \<lparr>ok = True, json = None\<rparr>))) = []
   \<and> dispatched (step (session Rejected [])
       (UserDispatch (AddItemToCart \<lparr>id_p = ''p1'', price_p = 6, title_p = ''buggati''\<rparr>)
          (Resolved \<lparr>ok = True, json = None\<rparr>)))
     = [AddItemToCart \<lparr>id_p = ''p1'', price_p = 6, title_p = ''buggati''\<rparr>]
   \<and> requests (session r0 evs) = []"
proof -
  have s0: "session Rejected [] = startup\<lparr>isInitial := False\<rparr>"
    by (simp add: session_def effect_def startup_def)
  have s1: "step (startup\<lparr>isInitial := False\<rparr>)
       (UserDispatch (AddItemToCart \<lparr>id_p = ''p1'', price_p = 6, title_p = ''buggati''\<rparr>)
          (Resolved \<lparr>ok = True, json = None\<rparr>))
     = startup\<lparr>isInitial := False,
         cart := \<lparr>items = [\<lparr>id_i = None, itemId = ''p1'', price = 6, quantity = 1,
                              totalPrice = 6, name = ''buggati''\<rparr>],
                  totalQuantity = 0, totalAmount = 0\<rparr>,
         dispatched := [AddItemToCart \<lparr>id_p = ''p1'', price_p = 6, title_p = ''buggati''\<rparr>]\<rparr>"
    by (simp add: dispatch_def rerender_def effect_def sendCartData_rejected startup_def
          addItemToCart_def initialCartState_def initialUIstate_def)
  have g: "requests (session r0 evs) = []"
    by (simp add: session_def requests_foldl_step requests_effect startup_def)
  show ?thesis
    unfolding s0 s1 using g by (simp add: startup_def s0)
qed

section \<open>Actions without a case reducer\<close>

text \<open>
  C8. The cart reducer returns the cart state it was given for an action of the type
  \<open>replaceCart\<close>, whatever the payload; the dispatch of such an action changes nothing
  in the store; and after a pull whose request succeeds with the data \<open>c\<close> the cart
  state is what it was before the pull.
\<close>

theorem replaceCart_ignored:
  "cartReducer state (ReplaceCart c) = Inr state
   \<and> dispatch (ReplaceCart c) w = Inr (w\<lparr>dispatched := dispatched w @ [ReplaceCart c]\<rparr>)
   \<and> cart (snd (fetchCartData (Resolved \<lparr>ok = True, json = Some c\<rparr>) w)) = cart w"
  by (simp add: dispatch_def fetchCartData_rejected)

lemma toggle_single:
  "toggle [''cartIsVisible'' \<mapsto> JBool b] = [''cartIsVisible'' \<mapsto> JBool (\<not> b)]"
  by (simp add: toggle_def)

lemma uiReducer_single:
  "uiReducer [''cartIsVisible'' \<mapsto> JBool b] a
     = [''cartIsVisible'' \<mapsto> JBool (if a = Toggle then \<not> b else b)]"
  by (cases a) (simp_all add: toggle_single del: fun_upd_apply)

lemma uiReducer_foldl:
  "foldl uiReducer [''cartIsVisible'' \<mapsto> JBool b] acts
     = [''cartIsVisible'' \<mapsto> JBool (b \<noteq> odd (length (filter (\<lambda>a. a = Toggle) acts)))]"
proof (induction acts arbitrary: b)
  case Nil
  show ?case by simp
next
  case (Cons a acts)
  have e: "((if a = Toggle then \<not> b else b) \<noteq> odd (length (filter (\<lambda>a. a = Toggle) acts)))
         = (b \<noteq> odd (length (filter (\<lambda>a. a = Toggle) (a # acts))))"
    by auto
  have "foldl uiReducer [''cartIsVisible'' \<mapsto> JBool b] (a # acts)
      = foldl uiReducer (uiReducer [''cartIsVisible'' \<mapsto> JBool b] a) acts"
    by (simp only: foldl_Cons)
  also have "\<dots> = foldl uiReducer
                     [''cartIsVisible'' \<mapsto> JBool (if a = Toggle then \<not> b else b)] acts"
    by (simp only: uiReducer_single)
  also have "\<dots> = [''cartIsVisible'' \<mapsto> JBool ((if a = Toggle then \<not> b else b)
                        \<noteq> odd (length (filter (\<lambda>a. a = Toggle) acts)))]"
    by (rule Cons.IH)
  also have "\<dots> = [''cartIsVisible'' \<mapsto>
                      JBool (b \<noteq> odd (length (filter (\<lambda>a. a = Toggle) (a # acts))))]"
    by (simp only: e)
  finally show ?case .
qed

text \<open>
  C9. The initial UI state has the one property \<open>cartIsVisible\<close>, which is false. The UI
  reducer returns the state it was given for \<open>showNotification\<close>. After any sequence of
  actions the UI state has the one property \<open>cartIsVisible\<close>, a boolean (true when the
  number of toggles is odd), and no property of it holds a notification.
\<close>

theorem ui_state_only_cartIsVisible:
  "initialUIstate = [''cartIsVisible'' \<mapsto> JBool False]
   \<and> uiReducer state (ShowNotification n) = state
   \<and> foldl uiReducer initialUIstate acts
       = [''cartIsVisible'' \<mapsto> JBool (odd (length (filter (\<lambda>a. a = Toggle) acts)))]
   \<and> dom (foldl uiReducer initialUIstate acts) = {''cartIsVisible''}
   \<and> JNotification m \<notin> ran (foldl uiReducer initialUIstate acts)"
  by (simp add: initialUIstate_def uiReducer_foldl)

section \<open>The toggle\<close>

text \<open>
  C10. In a UI state whose \<open>cartIsVisible\<close> is a boolean, as it is in every state the
  UI slice reaches, the toggle action sets \<open>cartIsVisible\<close> to the negation of its
  value, and two toggles give the state back.
\<close>

theorem toggle_flips:
  "state ''cartIsVisible'' = Some (JBool b) \<Longrightarrow>
     uiReducer state Toggle ''cartIsVisible'' = Some (JBool (\<not> b))
     \<and> uiReducer (uiReducer state Toggle) Toggle = state"
  by (auto simp: toggle_def)

text \<open>The theorem at the initial UI state: one toggle shows the cart, two hide it again.\<close>

theorem toggle_flips_witness:
  "uiReducer initialUIstate Toggle ''cartIsVisible'' = Some (JBool True)
   \<and> uiReducer (uiReducer initialUIstate Toggle) Toggle = initialUIstate"
proof -
  have "initialUIstate ''cartIsVisible'' = Some (JBool False)"
    by (simp add: initialUIstate_def)
  from toggle_flips [of initialUIstate False, OF this] show ?thesis by simp
qed

end
